theory Spec2Isabelle
  imports Main "HOL-Library.Sublist"
begin

section \<open>Python strings\<close>

text \<open>
  A Python \<^verbatim>\<open>str\<close> is a sequence of Unicode code points, so it is modelled as a list
  of natural numbers. \<open>ascii\<close> embeds an ASCII literal of the source; the non-ASCII
  characters of the source's literals are written as their code points.
\<close>

type_synonym pystr = "nat list"

definition ascii :: "string \<Rightarrow> pystr" where
  "ascii s = map of_char s"

text \<open>
  \<^verbatim>\<open>str.isspace\<close> on one code point: the characters \<^verbatim>\<open>str.strip()\<close> removes when it
  is called without an argument.
\<close>

definition isspace :: "nat \<Rightarrow> bool" where
  "isspace c \<longleftrightarrow>
     (0x09 \<le> c \<and> c \<le> 0x0D) \<or> (0x1C \<le> c \<and> c \<le> 0x20) \<or> c = 0x85 \<or> c = 0xA0 \<or>
     c = 0x1680 \<or> (0x2000 \<le> c \<and> c \<le> 0x200A) \<or> c = 0x2028 \<or> c = 0x2029 \<or>
     c = 0x202F \<or> c = 0x205F \<or> c = 0x3000"

text \<open>\<^verbatim>\<open>s.strip()\<close>: leading and trailing whitespace removed.\<close>

definition strip :: "pystr \<Rightarrow> pystr" where
  "strip s = rev (dropWhile isspace (rev (dropWhile isspace s)))"

text \<open>\<^verbatim>\<open>needle in hay\<close> on two strings: \<open>needle\<close> occurs as a contiguous run of \<open>hay\<close>.\<close>

definition py_in :: "pystr \<Rightarrow> pystr \<Rightarrow> bool" where
  "py_in needle hay = sublist needle hay"

section \<open>The language heuristic\<close>

text \<open>
  \<^verbatim>\<open>any(lo <= char <= hi for char in text)\<close>, where lo and hi are the
  one-character strings of the code points 0D80 and 0DFF: one-character strings compare
  by code point.
\<close>

definition sinhala_char :: "nat \<Rightarrow> bool" where
  "sinhala_char c \<longleftrightarrow> 0x0D80 \<le> c \<and> c \<le> 0x0DFF"

definition detect_language_and_get_target :: "pystr \<Rightarrow> pystr" where
  "detect_language_and_get_target text =
     (let sinhala_chars = list_ex sinhala_char text
      in if sinhala_chars then ascii ''en'' else ascii ''si'')"

section \<open>Values, exceptions and effects\<close>

text \<open>
  A decoded JSON document, as Python's \<^verbatim>\<open>json\<close> module returns it: \<open>JObj\<close> holds the
  items of the resulting \<^verbatim>\<open>dict\<close>, \<open>JNum\<close> keeps a number as its token (no claim
  computes with one).
\<close>

datatype json =
    JNull
  | JBool bool
  | JNum pystr
  | JStr pystr
  | JArr "json list"
  | JObj "(pystr \<times> json) list"

datatype pykey = KInt int | KStr pystr

text \<open>
  The exceptions of class \<^verbatim>\<open>Exception\<close> a request can meet. \<open>HTTPError\<close> is what
  \<^verbatim>\<open>raise_for_status\<close> raises, with the status; \<open>LibraryError\<close> is any other exception
  raised inside a library (transport, JSON decoding, SDK), named by a label.
\<close>

datatype exc =
    AttributeError
  | TypeError
  | IndexError
  | KeyError pykey
  | HTTPError nat
  | LibraryError pystr

record channel_account =
  account_id :: "pystr option"

record activity =
  activity_type :: pystr
  activity_text :: "pystr option"
  members_added :: "channel_account list"
  recipient :: "channel_account option"

record http_request =
  url :: pystr
  params :: "(pystr \<times> pystr) list"
  headers :: "(pystr \<times> pystr) list"
  json_body :: json

text \<open>
  A response of the HTTP library: its status and what \<^verbatim>\<open>response.json()\<close> gives, the
  decoded body or the exception raised on a body that is not JSON.
\<close>

record http_response =
  status_code :: nat
  json_result :: "exc + json"

datatype out_activity = Message pystr | Typing

text \<open>
  What a request does, in order: the activities sent, the lines logged, the outbound HTTP
  call, and the calls of the functions the specification speaks of.
\<close>

datatype event =
    Send out_activity
  | Log_error pystr
  | Call_detect pystr
  | Call_translate pystr pystr
  | Http_post http_request
  | Request_json
  | Deserialize json
  | Process_activity activity pystr

text \<open>A computation: the events so far, and a value or the exception that ended it.\<close>

type_synonym 'a io = "event list \<times> (exc + 'a)"

definition ret :: "'a \<Rightarrow> 'a io" where
  "ret x = ([], Inr x)"

definition raise :: "exc \<Rightarrow> 'a io" where
  "raise e = ([], Inl e)"

definition emit :: "event \<Rightarrow> unit io" where
  "emit ev = ([ev], Inr ())"

definition lift :: "exc + 'a \<Rightarrow> 'a io" where
  "lift r = ([], r)"

definition bind :: "'a io \<Rightarrow> ('a \<Rightarrow> 'b io) \<Rightarrow> 'b io" where
  "bind m f =
     (case m of
        (es, Inl e) \<Rightarrow> (es, Inl e)
      | (es, Inr x) \<Rightarrow> (case f x of (es', r) \<Rightarrow> (es @ es', r)))"

text \<open>\<^verbatim>\<open>try: m except Exception as e: h(e)\<close>\<close>

definition try_except :: "'a io \<Rightarrow> (exc \<Rightarrow> 'a io) \<Rightarrow> 'a io" where
  "try_except m h =
     (case m of
        (es, Inl e) \<Rightarrow> (case h e of (es', r) \<Rightarrow> (es @ es', r))
      | (es, Inr x) \<Rightarrow> (es, Inr x))"

text \<open>
  The surroundings of the bot: the module-level configuration, the HTTP session
  (\<open>None\<close> when it could not be created; otherwise what \<^verbatim>\<open>post\<close> does with a request),
  the outcome of \<^verbatim>\<open>turn_context.send_activity\<close>, and three functions of the Python
  runtime that are taken as they are: \<^verbatim>\<open>str.lower\<close>, \<^verbatim>\<open>str(e)\<close> on an exception and
  the formatting of a value that is not a string inside an f-string.
\<close>

record env =
  translator_client :: "(http_request \<Rightarrow> exc + http_response) option"
  translator_key :: "pystr option"
  translator_endpoint :: pystr
  translator_region :: pystr
  send_activity :: "out_activity \<Rightarrow> exc option"
  str_lower :: "pystr \<Rightarrow> pystr"
  exc_str :: "exc \<Rightarrow> pystr"
  py_format :: "json \<Rightarrow> pystr"

definition send :: "env \<Rightarrow> out_activity \<Rightarrow> unit io" where
  "send env act =
     ([Send act], case send_activity env act of None \<Rightarrow> Inr () | Some e \<Rightarrow> Inl e)"

section \<open>The translation client\<close>

text \<open>\<^verbatim>\<open>v[0]\<close>, \<^verbatim>\<open>v[k]\<close> for a string \<open>k\<close>, and \<^verbatim>\<open>v.get(k, d)\<close>, on a decoded JSON value.\<close>

fun subscript0 :: "json \<Rightarrow> exc + json" where
  "subscript0 (JArr []) = Inl IndexError"
| "subscript0 (JArr (x # xs)) = Inr x"
| "subscript0 (JStr []) = Inl IndexError"
| "subscript0 (JStr (c # cs)) = Inr (JStr [c])"
| "subscript0 (JObj kvs) = Inl (KeyError (KInt 0))"
| "subscript0 v = Inl TypeError"

fun subscript_key :: "json \<Rightarrow> pystr \<Rightarrow> exc + json" where
  "subscript_key (JObj kvs) k =
     (case map_of kvs k of None \<Rightarrow> Inl (KeyError (KStr k)) | Some v \<Rightarrow> Inr v)"
| "subscript_key v k = Inl TypeError"

fun dict_get :: "json \<Rightarrow> pystr \<Rightarrow> json \<Rightarrow> exc + json" where
  "dict_get (JObj kvs) k d = (case map_of kvs k of None \<Rightarrow> Inr d | Some v \<Rightarrow> Inr v)"
| "dict_get v k d = Inl AttributeError"

definition and_then :: "exc + 'a \<Rightarrow> ('a \<Rightarrow> exc + 'b) \<Rightarrow> exc + 'b" where
  "and_then r f = (case r of Inl e \<Rightarrow> Inl e | Inr x \<Rightarrow> f x)"

text \<open>
  \<^verbatim>\<open>translated_text = result[0]['translations'][0]['text']\<close>, then
  \<^verbatim>\<open>detected_language = result[0].get('detectedLanguage', {}).get('language', 'unknown')\<close>.
\<close>

definition read_result :: "json \<Rightarrow> exc + (json \<times> json)" where
  "read_result result =
     and_then (subscript0 result) (\<lambda>r0.
     and_then (subscript_key r0 (ascii ''translations'')) (\<lambda>ts.
     and_then (subscript0 ts) (\<lambda>t0.
     and_then (subscript_key t0 (ascii ''text'')) (\<lambda>translated_text.
     and_then (dict_get r0 (ascii ''detectedLanguage'') (JObj [])) (\<lambda>d.
     and_then (dict_get d (ascii ''language'') (JStr (ascii ''unknown''))) (\<lambda>detected_language.
     Inr (translated_text, detected_language)))))))"

text \<open>A value interpolated into an f-string.\<close>

definition interpolate :: "env \<Rightarrow> json \<Rightarrow> pystr" where
  "interpolate env v = (case v of JStr s \<Rightarrow> s | _ \<Rightarrow> py_format env v)"

text \<open>\<^verbatim>\<open>response.raise_for_status()\<close> raises for the statuses 400 to 599.\<close>

definition raise_for_status :: "http_response \<Rightarrow> exc + unit" where
  "raise_for_status response =
     (if 400 \<le> status_code response \<and> status_code response < 600
      then Inl (HTTPError (status_code response)) else Inr ())"

definition not_configured :: pystr where
  "not_configured = ascii ''Translation service not configured''"

definition failure_prefix :: pystr where
  "failure_prefix = ascii ''Sorry, translation failed: ''"

definition translated_reply :: "pystr \<Rightarrow> pystr \<Rightarrow> pystr \<Rightarrow> pystr" where
  "translated_reply detected_language target_language translated_text =
     ascii ''**Translated** ('' @ detected_language @ ascii '' '' @ [0xE2, 0x2020, 0x2019] @
     ascii '' '' @ target_language @ ascii ''):'' @ [10] @ translated_text"

definition translate_request :: "env \<Rightarrow> pystr \<Rightarrow> pystr \<Rightarrow> pystr \<Rightarrow> http_request" where
  "translate_request env key text target_language =
     \<lparr> url = translator_endpoint env @ ascii ''/translate'',
       params = [(ascii ''api-version'', ascii ''3.0''), (ascii ''to'', target_language)],
       headers = [(ascii ''Ocp-Apim-Subscription-Key'', key),
                  (ascii ''Ocp-Apim-Subscription-Region'', translator_region env),
                  (ascii ''Content-Type'', ascii ''application/json'')],
       json_body = JArr [JObj [(ascii ''text'', JStr text)]] \<rparr>"

definition translate_text :: "env \<Rightarrow> pystr \<Rightarrow> pystr \<Rightarrow> pystr io" where
  "translate_text env text target_language =
     bind (emit (Call_translate text target_language)) (\<lambda>_.
       case (translator_client env, translator_key env) of
         (Some post, Some key) \<Rightarrow>
           if key = [] then ret not_configured
           else
             try_except
               (bind (emit (Http_post (translate_request env key text target_language))) (\<lambda>_.
                bind (lift (post (translate_request env key text target_language))) (\<lambda>response.
                bind (lift (raise_for_status response)) (\<lambda>_.
                bind (lift (json_result response)) (\<lambda>result.
                bind (lift (read_result result)) (\<lambda>(translated_text, detected_language).
                ret (translated_reply (interpolate env detected_language) target_language
                       (interpolate env translated_text))))))))
               (\<lambda>e.
                bind (emit (Log_error (ascii ''Translation error: '' @ exc_str env e))) (\<lambda>_.
                ret (failure_prefix @ exc_str env e)))
       | _ \<Rightarrow> ret not_configured)"

section \<open>The activity handler\<close>

definition prompt_text :: pystr where
  "prompt_text = ascii ''Please send some text to translate!''"

definition help_keywords :: "pystr list" where
  "help_keywords = [ascii ''/help'', ascii ''help'', ascii ''/translate help'']"

definition help_text :: pystr where
  "help_text =
     [10]
   @ ascii ''**Translation Bot Help**'' @ [10]
   @ [10]
   @ ascii ''Simply type any text in English or Sinhala, and I'' @ [39] @ ascii ''ll translate it for you!'' @ [10]
   @ [10]
   @ ascii ''**Examples:**'' @ [10]
   @ ascii ''- Type: '' @ [34] @ ascii ''Hello, how are you?'' @ [34] @ ascii '' '' @ [0xE2, 0x2020, 0x2019] @ ascii '' Gets translated to Sinhala'' @ [10]
   @ ascii ''- Type: '' @ [34, 0xE0, 0xB6, 0x201D, 0xE0, 0xB6, 0xB6, 0xE0, 0xB6, 0xA7] @ ascii '' '' @ [0xE0, 0xB6, 0x161, 0xE0, 0xB7, 0x153, 0xE0, 0xB7, 0x201E, 0xE0, 0xB7, 0x153, 0xE0, 0xB6, 0xB8, 0xE0, 0xB6, 0xAF] @ ascii ''?'' @ [34] @ ascii '' '' @ [0xE2, 0x2020, 0x2019] @ ascii '' Gets translated to English'' @ [10]
   @ [10]
   @ ascii ''**Commands:**'' @ [10]
   @ ascii ''- '' @ [96] @ ascii ''/help'' @ [96] @ ascii '' or '' @ [96] @ ascii ''help'' @ [96] @ ascii '' - Show this help message'' @ [10]
   @ ascii ''- Just type any text - Auto-detects language and translates'' @ [10]
   @ [10]
   @ ascii ''**Supported Languages:**'' @ [10]
   @ ascii ''- English '' @ [0xE2, 0x2020, 0x201D] @ ascii '' Sinhala'' @ [10]
   @ ascii ''            ''"

definition welcome_text :: pystr where
  "welcome_text =
     [10]
   @ [0xF0, 0x178, 0x2018, 0x2039] @ ascii '' **Welcome to Translation Bot!**'' @ [10]
   @ [10]
   @ ascii ''I can translate between English and Sinhala instantly!'' @ [10]
   @ [10]
   @ ascii ''Just type any text and I'' @ [39] @ ascii ''ll automatically detect the language and translate it for you.'' @ [10]
   @ [10]
   @ ascii ''Type '' @ [96] @ ascii ''/help'' @ [96] @ ascii '' for more information.'' @ [10]
   @ ascii ''        ''"

text \<open>
  \<^verbatim>\<open>on_message_activity\<close>. The turn context is its activity; \<^verbatim>\<open>None.strip()\<close> raises
  \<^verbatim>\<open>AttributeError\<close>.
\<close>

definition on_message_activity :: "env \<Rightarrow> activity \<Rightarrow> unit io" where
  "on_message_activity env turn_context =
     (case activity_text turn_context of
        None \<Rightarrow> raise AttributeError
      | Some t \<Rightarrow>
          (let user_message = strip t in
           if user_message = [] then send env (Message prompt_text)
           else if str_lower env user_message \<in> set help_keywords
             then send env (Message help_text)
           else
             bind (emit (Call_detect user_message)) (\<lambda>_.
             let target_language = detect_language_and_get_target user_message in
             bind (send env Typing) (\<lambda>_.
             bind (translate_text env user_message target_language) (\<lambda>translated_text.
             send env (Message translated_text))))))"

text \<open>
  \<^verbatim>\<open>on_members_added_activity\<close>: the loop over the added members.
  \<^verbatim>\<open>turn_context.activity.recipient.id\<close> raises \<^verbatim>\<open>AttributeError\<close> on a missing recipient.
\<close>

fun on_members_added_activity :: "env \<Rightarrow> channel_account list \<Rightarrow> activity \<Rightarrow> unit io" where
  "on_members_added_activity env [] turn_context = ret ()"
| "on_members_added_activity env (member # rest) turn_context =
     (case recipient turn_context of
        None \<Rightarrow> raise AttributeError
      | Some bot_account \<Rightarrow>
          if account_id member \<noteq> account_id bot_account
          then bind (send env (Message welcome_text)) (\<lambda>_.
                 on_members_added_activity env rest turn_context)
          else on_members_added_activity env rest turn_context)"

section \<open>The HTTP endpoint\<close>

text \<open>
  A request as the view function reads it: \<^verbatim>\<open>request.headers\<close>, a lookup that has no
  value for an absent header, and what reading \<^verbatim>\<open>request.json\<close> gives.
\<close>

record request =
  request_headers :: "pystr \<Rightarrow> pystr option"
  request_json :: "exc + json"

record invoke_response =
  response_body :: json
  response_status :: nat

text \<open>
  The bot framework, outside the repository: how a decoded body becomes an activity, and
  the adapter's \<^verbatim>\<open>process_activity\<close>, which is given the activity, the authorization
  header and the callback to run.
\<close>

record server =
  deserialize :: "json \<Rightarrow> exc + activity"
  process_activity :: "activity \<Rightarrow> pystr \<Rightarrow> (activity \<Rightarrow> unit io) \<Rightarrow> invoke_response option io"

datatype reply_body = Json json | Plain pystr

type_synonym flask_response = "reply_body \<times> nat"

definition jsonify_error :: "pystr \<Rightarrow> reply_body" where
  "jsonify_error msg = Json (JObj [(ascii ''error'', JStr msg)])"

definition aux_func :: "env \<Rightarrow> activity \<Rightarrow> unit io" where
  "aux_func env turn_context = on_message_activity env turn_context"

definition messages :: "env \<Rightarrow> server \<Rightarrow> request \<Rightarrow> flask_response io" where
  "messages env srv req =
     (case request_headers req (ascii ''Content-Type'') of
        None \<Rightarrow> raise (KeyError (KStr (ascii ''Content-Type'')))
      | Some content_type \<Rightarrow>
          if py_in (ascii ''application/json'') content_type then
            bind (emit Request_json) (\<lambda>_.
            bind (lift (request_json req)) (\<lambda>body.
            bind (emit (Deserialize body)) (\<lambda>_.
            bind (lift (deserialize srv body)) (\<lambda>activity.
            let auth_header =
                  (case request_headers req (ascii ''Authorization'') of
                     Some h \<Rightarrow> h | None \<Rightarrow> [])
            in
            try_except
              (bind (emit (Process_activity activity auth_header)) (\<lambda>_.
               bind (process_activity srv activity auth_header (aux_func env)) (\<lambda>response.
               case response of
                 Some r \<Rightarrow> ret (Json (response_body r), response_status r)
               | None \<Rightarrow> ret (Plain [], 200))))
              (\<lambda>e.
               bind (emit (Log_error (ascii ''Error processing activity: '' @ exc_str env e))) (\<lambda>_.
               ret (jsonify_error (exc_str env e), 500)))))))
          else ret (jsonify_error (ascii ''Invalid content type''), 415))"

text \<open>
  An adapter that does what the SDK's does around the callback: it checks the
  authorization header, runs the callback on the activity once, lets an exception of the
  callback through, and answers with its invoke response, if any.
\<close>

definition pipeline_adapter ::
  "(activity \<Rightarrow> pystr \<Rightarrow> exc option) \<Rightarrow> (activity \<Rightarrow> invoke_response option) \<Rightarrow>
   activity \<Rightarrow> pystr \<Rightarrow> (activity \<Rightarrow> unit io) \<Rightarrow> invoke_response option io" where
  "pipeline_adapter authenticate answer activity auth_header callback =
     (case authenticate activity auth_header of
        Some e \<Rightarrow> raise e
      | None \<Rightarrow> bind (callback activity) (\<lambda>_. ret (answer activity)))"

section \<open>Concrete inputs\<close>

text \<open>
  The inputs at which the properties below are evaluated. \<open>ascii_lower\<close> is
  \<^verbatim>\<open>str.lower\<close> on ASCII text; \<open>example_exc_str\<close> names an exception by its class.
\<close>

definition ascii_lower :: "pystr \<Rightarrow> pystr" where
  "ascii_lower s = map (\<lambda>c. if 65 \<le> c \<and> c \<le> 90 then c + 32 else c) s"

fun example_exc_str :: "exc \<Rightarrow> pystr" where
  "example_exc_str AttributeError = ascii ''AttributeError''"
| "example_exc_str TypeError = ascii ''TypeError''"
| "example_exc_str IndexError = ascii ''list index out of range''"
| "example_exc_str (KeyError k) = ascii ''KeyError''"
| "example_exc_str (HTTPError n) = ascii ''HTTPError''"
| "example_exc_str (LibraryError msg) = msg"

text \<open>
  The successful upstream body of the specification's example, with the translated
  text \<open>x\<close>.
\<close>

definition example_body :: "pystr \<Rightarrow> json" where
  "example_body x =
     JArr [JObj [(ascii ''translations'', JArr [JObj [(ascii ''text'', JStr x)]]),
                 (ascii ''detectedLanguage'', JObj [(ascii ''language'', JStr (ascii ''en''))])]]"

definition example_env :: "(http_request \<Rightarrow> exc + http_response) \<Rightarrow> env" where
  "example_env post =
     \<lparr> translator_client = Some post,
       translator_key = Some (ascii ''key''),
       translator_endpoint = ascii ''https://api.cognitive.microsofttranslator.com'',
       translator_region = ascii ''eastus'',
       send_activity = (\<lambda>_. None),
       str_lower = ascii_lower,
       exc_str = example_exc_str,
       py_format = (\<lambda>_. ascii ''?'') \<rparr>"

definition post_answers :: "nat \<Rightarrow> exc + json \<Rightarrow> http_request \<Rightarrow> exc + http_response" where
  "post_answers st r req = Inr \<lparr> status_code = st, json_result = r \<rparr>"

definition post_fails :: "exc \<Rightarrow> http_request \<Rightarrow> exc + http_response" where
  "post_fails e req = Inl e"

definition bot_account :: channel_account where
  "bot_account = \<lparr> account_id = Some (ascii ''bot'') \<rparr>"

definition message_activity :: "pystr option \<Rightarrow> activity" where
  "message_activity t =
     \<lparr> activity_type = ascii ''message'', activity_text = t, members_added = [],
       recipient = Some bot_account \<rparr>"

definition members_added_activity :: activity where
  "members_added_activity =
     \<lparr> activity_type = ascii ''conversationUpdate'', activity_text = None,
       members_added = [\<lparr> account_id = Some (ascii ''user1'') \<rparr>],
       recipient = Some bot_account \<rparr>"

definition example_server :: "activity \<Rightarrow> server" where
  "example_server a =
     \<lparr> deserialize = (\<lambda>_. Inr a),
       process_activity = pipeline_adapter (\<lambda>_ _. None) (\<lambda>_. None) \<rparr>"

definition message_body :: "pystr \<Rightarrow> json" where
  "message_body t =
     JObj [(ascii ''type'', JStr (ascii ''message'')), (ascii ''text'', JStr t),
           (ascii ''recipient'', JObj [(ascii ''id'', JStr (ascii ''bot''))])]"

definition members_added_body :: json where
  "members_added_body =
     JObj [(ascii ''type'', JStr (ascii ''conversationUpdate'')),
           (ascii ''membersAdded'', JArr [JObj [(ascii ''id'', JStr (ascii ''user1''))]]),
           (ascii ''recipient'', JObj [(ascii ''id'', JStr (ascii ''bot''))])]"

definition example_request :: "pystr option \<Rightarrow> json \<Rightarrow> request" where
  "example_request content_type body =
     \<lparr> request_headers = (\<lambda>h. if h = ascii ''Content-Type'' then content_type else None),
       request_json = Inr body \<rparr>"

section \<open>Auxiliary facts\<close>

lemma bind_emit: "bind (emit ev) f = (ev # fst (f ()), snd (f ()))"
  by (simp add: bind_def emit_def split: prod.splits)

lemma bind_lift_Inl: "bind (lift (Inl e)) f = ([], Inl e)"
  by (simp add: bind_def lift_def)

lemma bind_lift_Inr: "bind (lift (Inr x)) f = f x"
  by (simp add: bind_def lift_def split: prod.splits)

lemma bind_ret: "bind (ret x) f = f x"
  by (simp add: bind_def ret_def split: prod.splits)

lemma bind_send:
  "bind (send env act) f =
     (case send_activity env act of
        None \<Rightarrow> (Send act # fst (f ()), snd (f ()))
      | Some e \<Rightarrow> ([Send act], Inl e))"
  by (simp add: bind_def send_def split: prod.splits option.splits)

lemma try_except_Inr: "try_except (es, Inr x) h = (es, Inr x)"
  by (simp add: try_except_def)

lemma try_except_Inl: "try_except (es, Inl e) h = (es @ fst (h e), snd (h e))"
  by (simp add: try_except_def split: prod.splits)

lemma strip_empty_iff: "strip t = [] \<longleftrightarrow> (\<forall>c\<in>set t. isspace c)"
proof
  assume "strip t = []"
  then have all: "\<forall>c\<in>set (dropWhile isspace t). isspace c"
    by (simp add: strip_def)
  show "\<forall>c\<in>set t. isspace c"
  proof (cases "dropWhile isspace t")
    case Nil
    then show ?thesis by simp
  next
    case (Cons y ys)
    then have "\<not> isspace y" using hd_dropWhile [of isspace t] by simp
    moreover have "isspace y" using all Cons by simp
    ultimately show ?thesis by simp
  qed
next
  assume "\<forall>c\<in>set t. isspace c"
  then have d: "dropWhile isspace t = []" by simp
  show "strip t = []" by (simp only: strip_def d rev.simps dropWhile.simps)
qed

lemma help_keywords_nonempty: "[] \<notin> set help_keywords"
  by (simp add: help_keywords_def ascii_def)

section \<open>The language heuristic: property\<close>

text \<open>
  Claim C2. For every string, the heuristic returns \<^verbatim>\<open>'en'\<close> when some code point of
  the string lies in U+0D80..U+0DFF (both ends included) and \<^verbatim>\<open>'si'\<close> otherwise; the
  result is always one of these two codes, which differ. The function is total: it has
  no failing branch.
\<close>

theorem detect_language_sinhala_range:
  "detect_language_and_get_target text =
     (if (\<exists>c\<in>set text. 0x0D80 \<le> c \<and> c \<le> 0x0DFF) then ascii ''en'' else ascii ''si'')
   \<and> detect_language_and_get_target text \<in> {ascii ''en'', ascii ''si''}
   \<and> ascii ''en'' \<noteq> ascii ''si''"
  by (simp add: detect_language_and_get_target_def list_ex_iff sinhala_char_def ascii_def)

theorem detect_language_sinhala_range_witness:
  "detect_language_and_get_target (ascii ''ab'' @ [0x0D85]) = ascii ''en''
   \<and> detect_language_and_get_target (ascii ''Hello'') = ascii ''si''
   \<and> detect_language_and_get_target [] = ascii ''si''"
  using detect_language_sinhala_range [of "ascii ''ab'' @ [0x0D85]"]
        detect_language_sinhala_range [of "ascii ''Hello''"]
        detect_language_sinhala_range [of "[]"]
  by (simp add: ascii_def)

section \<open>The activity handler: short circuits\<close>

text \<open>
  Claim C5. A message whose text is empty or has only whitespace makes
  \<^verbatim>\<open>on_message_activity\<close> send the fixed prompt, and nothing else happens: the handler
  ends with the outcome of that send, and its events hold no call of
  \<^verbatim>\<open>translate_text\<close> and no outbound HTTP call.
\<close>

theorem empty_text_prompt:
  assumes "activity_text turn_context = Some t" and "\<forall>c\<in>set t. isspace c"
  shows "on_message_activity env turn_context = send env (Message prompt_text)
   \<and> fst (on_message_activity env turn_context) = [Send (Message prompt_text)]
   \<and> (send_activity env (Message prompt_text) = None \<longrightarrow>
        snd (on_message_activity env turn_context) = Inr ())
   \<and> (\<forall>x y. Call_translate x y \<notin> set (fst (on_message_activity env turn_context)))
   \<and> (\<forall>r. Http_post r \<notin> set (fst (on_message_activity env turn_context)))"
  using assms strip_empty_iff [of t] by (simp add: on_message_activity_def send_def)

theorem empty_text_prompt_witness:
  "on_message_activity (example_env (post_fails IndexError))
     (message_activity (Some (ascii ''  '' @ [9, 10, 0x3000])))
   = ([Send (Message prompt_text)], Inr ())
   \<and> on_message_activity (example_env (post_fails IndexError)) (message_activity (Some []))
   = ([Send (Message prompt_text)], Inr ())"
  using empty_text_prompt [of "message_activity (Some (ascii ''  '' @ [9, 10, 0x3000]))"
          "ascii ''  '' @ [9, 10, 0x3000]" "example_env (post_fails IndexError)"]
        empty_text_prompt [of "message_activity (Some [])" "[]"
          "example_env (post_fails IndexError)"]
  by (simp add: message_activity_def ascii_def isspace_def send_def example_env_def)

text \<open>
  Claim C3. When the trimmed text, lowered by \<^verbatim>\<open>str.lower\<close>, is one of \<^verbatim>\<open>/help\<close>,
  \<^verbatim>\<open>help\<close> and \<^verbatim>\<open>/translate help\<close>, \<^verbatim>\<open>on_message_activity\<close> sends the fixed
  help text and ends with the outcome of that send: no call of the language heuristic, no
  call of \<^verbatim>\<open>translate_text\<close>, no outbound HTTP call. (\<^verbatim>\<open>str.lower\<close> of the empty string
  is the empty string.)
\<close>

theorem help_keyword_short_circuit:
  assumes "activity_text turn_context = Some t"
    and "str_lower env [] = []"
    and "str_lower env (strip t) \<in> {ascii ''/help'', ascii ''help'', ascii ''/translate help''}"
  shows "on_message_activity env turn_context = send env (Message help_text)
   \<and> fst (on_message_activity env turn_context) = [Send (Message help_text)]
   \<and> (send_activity env (Message help_text) = None \<longrightarrow>
        snd (on_message_activity env turn_context) = Inr ())
   \<and> (\<forall>x. Call_detect x \<notin> set (fst (on_message_activity env turn_context)))
   \<and> (\<forall>x y. Call_translate x y \<notin> set (fst (on_message_activity env turn_context)))
   \<and> (\<forall>r. Http_post r \<notin> set (fst (on_message_activity env turn_context)))"
proof -
  have kw: "str_lower env (strip t) \<in> set help_keywords"
    using assms(3) by (simp add: help_keywords_def)
  have "str_lower env (strip t) \<noteq> []"
    using kw help_keywords_nonempty by metis
  then have ne: "strip t \<noteq> []"
    using assms(2) by metis
  have "on_message_activity env turn_context = send env (Message help_text)"
    using assms(1) kw ne by (simp add: on_message_activity_def)
  then show ?thesis by (simp add: send_def)
qed

theorem help_keyword_short_circuit_witness:
  "on_message_activity (example_env (post_fails IndexError))
     (message_activity (Some (ascii ''  /Translate HELP ''))) = ([Send (Message help_text)], Inr ())
   \<and> on_message_activity (example_env (post_fails IndexError))
     (message_activity (Some (ascii ''Help''))) = ([Send (Message help_text)], Inr ())"
  using help_keyword_short_circuit [of "message_activity (Some (ascii ''  /Translate HELP ''))"
          "ascii ''  /Translate HELP ''" "example_env (post_fails IndexError)"]
        help_keyword_short_circuit [of "message_activity (Some (ascii ''Help''))"
          "ascii ''Help''" "example_env (post_fails IndexError)"]
  by (simp add: message_activity_def ascii_def isspace_def send_def example_env_def
        strip_def ascii_lower_def)

section \<open>The translation client: properties\<close>

lemma translate_text_unfold:
  assumes "translator_client env = Some post" and "translator_key env = Some key"
    and "key \<noteq> []"
  shows "snd (translate_text env text target_language) =
     (case post (translate_request env key text target_language) of
        Inl e \<Rightarrow> Inr (failure_prefix @ exc_str env e)
      | Inr response \<Rightarrow>
          (case raise_for_status response of
             Inl e \<Rightarrow> Inr (failure_prefix @ exc_str env e)
           | Inr _ \<Rightarrow>
               (case json_result response of
                  Inl e \<Rightarrow> Inr (failure_prefix @ exc_str env e)
                | Inr result \<Rightarrow>
                    (case read_result result of
                       Inl e \<Rightarrow> Inr (failure_prefix @ exc_str env e)
                     | Inr (translated_text, detected_language) \<Rightarrow>
                         Inr (translated_reply (interpolate env detected_language)
                                target_language (interpolate env translated_text))))))"
  using assms
  by (simp add: translate_text_def bind_emit bind_lift_Inl bind_lift_Inr bind_ret
        try_except_def lift_def ret_def emit_def bind_def
      split: sum.splits prod.splits)

lemma translate_text_not_configured:
  assumes "translator_client env = None \<or> translator_key env = None \<or> translator_key env = Some []"
  shows "translate_text env text target_language =
           ([Call_translate text target_language], Inr not_configured)"
  using assms
  by (auto simp add: translate_text_def bind_emit ret_def split: option.splits)

lemma translate_text_returns:
  "\<exists>s. snd (translate_text env text target_language) = Inr s"
proof (cases "translator_client env")
  case None
  then show ?thesis by (simp add: translate_text_not_configured)
next
  case (Some post)
  show ?thesis
  proof (cases "translator_key env")
    case None
    then show ?thesis by (simp add: translate_text_not_configured)
  next
    case (Some key)
    show ?thesis
    proof (cases "key = []")
      case True
      then show ?thesis using Some by (simp add: translate_text_not_configured)
    next
      case False
      show ?thesis
        using translate_text_unfold [OF \<open>translator_client env = Some post\<close> Some False]
        by (simp split: sum.splits prod.splits)
    qed
  qed
qed

lemma translated_reply_contains:
  "py_in d (translated_reply d t x)" "py_in t (translated_reply d t x)"
  "py_in x (translated_reply d t x)"
proof -
  show "py_in d (translated_reply d t x)"
    unfolding py_in_def translated_reply_def by (rule sublist_appendI)
  have "translated_reply d t x =
          (ascii ''**Translated** ('' @ d @ ascii '' '' @ [0xE2, 0x2020, 0x2019] @ ascii '' '')
          @ t @ (ascii ''):'' @ [10] @ x)"
    by (simp add: translated_reply_def)
  then show "py_in t (translated_reply d t x)"
    unfolding py_in_def by (simp only: sublist_appendI)
  have "translated_reply d t x =
          (ascii ''**Translated** ('' @ d @ ascii '' '' @ [0xE2, 0x2020, 0x2019] @ ascii '' ''
           @ t @ ascii ''):'' @ [10]) @ x"
    by (simp add: translated_reply_def)
  then show "py_in x (translated_reply d t x)"
    unfolding py_in_def by (simp only: sublist_append_leftI)
qed

lemma read_result_example:
  "read_result (example_body x) = Inr (JStr x, JStr (ascii ''en''))"
  by (simp add: read_result_def example_body_def and_then_def ascii_def)

text \<open>
  Claim C6. When the upstream call for the text \<^verbatim>\<open>Hello\<close> and the target \<^verbatim>\<open>si\<close>
  succeeds (a status from 200 to 299) with the body
  \<^verbatim>\<open>[{"translations":[{"text":X}],"detectedLanguage":{"language":"en"}}]\<close>,
  \<^verbatim>\<open>translate_text\<close> returns the formatted reply, a string that contains \<^verbatim>\<open>en\<close>,
  \<^verbatim>\<open>si\<close> and the translated text \<open>X\<close>.
\<close>

theorem translate_text_success_contains:
  assumes "translator_client env = Some post" and "translator_key env = Some key"
    and "key \<noteq> []"
    and "post (translate_request env key (ascii ''Hello'') (ascii ''si'')) = Inr response"
    and "200 \<le> status_code response" and "status_code response < 300"
    and "json_result response = Inr (example_body x)"
  shows "snd (translate_text env (ascii ''Hello'') (ascii ''si''))
           = Inr (translated_reply (ascii ''en'') (ascii ''si'') x)
   \<and> py_in (ascii ''en'') (translated_reply (ascii ''en'') (ascii ''si'') x)
   \<and> py_in (ascii ''si'') (translated_reply (ascii ''en'') (ascii ''si'') x)
   \<and> py_in x (translated_reply (ascii ''en'') (ascii ''si'') x)"
proof -
  have "raise_for_status response = Inr ()"
    using assms(5,6) by (simp add: raise_for_status_def)
  then have "snd (translate_text env (ascii ''Hello'') (ascii ''si''))
           = Inr (translated_reply (ascii ''en'') (ascii ''si'') x)"
    using translate_text_unfold [OF assms(1,2,3), of "ascii ''Hello''" "ascii ''si''"]
      assms(4,7)
    by (simp add: read_result_example interpolate_def)
  then show ?thesis by (simp add: translated_reply_contains)
qed

theorem translate_text_success_contains_witness:
  "translate_text (example_env (post_answers 200 (Inr (example_body (ascii ''X'')))))
     (ascii ''Hello'') (ascii ''si'')
   = ([Call_translate (ascii ''Hello'') (ascii ''si''),
       Http_post (translate_request (example_env (post_answers 200 (Inr (example_body (ascii ''X'')))))
                    (ascii ''key'') (ascii ''Hello'') (ascii ''si''))],
      Inr (ascii ''**Translated** (en '' @ [0xE2, 0x2020, 0x2019] @ ascii '' si):'' @ [10]
             @ ascii ''X''))
   \<and> py_in (ascii ''X'') (translated_reply (ascii ''en'') (ascii ''si'') (ascii ''X''))"
  using translate_text_success_contains [of
          "example_env (post_answers 200 (Inr (example_body (ascii ''X''))))"
          "post_answers 200 (Inr (example_body (ascii ''X'')))" "ascii ''key''"
          "\<lparr> status_code = 200, json_result = Inr (example_body (ascii ''X'')) \<rparr>" "ascii ''X''"]
  by (simp add: example_env_def post_answers_def translate_text_def bind_emit bind_lift_Inr
        bind_ret try_except_def raise_for_status_def read_result_example interpolate_def
        translated_reply_def ret_def ascii_def)

text \<open>
  Claim C4, as amended. \<^verbatim>\<open>translate_text\<close> always returns a string and never raises.
  Without a client or with no API key (absent or empty) the string is the fixed
  not-configured text. Otherwise it is \<^verbatim>\<open>Sorry, translation failed: \<close> followed by the
  text of the exception when the transport raises, when the response status lies in
  400..599 (the statuses \<^verbatim>\<open>raise_for_status\<close> rejects), when the body does not decode as
  JSON, and when the decoded body has not the expected shape.
\<close>

theorem translate_text_never_raises:
  "(\<exists>s. snd (translate_text env text target_language) = Inr s)
   \<and> (translator_client env = None \<or> translator_key env = None \<or> translator_key env = Some []
        \<longrightarrow> snd (translate_text env text target_language) = Inr not_configured)
   \<and> (\<forall>post key. translator_client env = Some post \<and> translator_key env = Some key \<and> key \<noteq> []
        \<longrightarrow>
          (\<forall>e. post (translate_request env key text target_language) = Inl e
             \<longrightarrow> snd (translate_text env text target_language)
                   = Inr (failure_prefix @ exc_str env e))
        \<and> (\<forall>response. post (translate_request env key text target_language) = Inr response
               \<and> 400 \<le> status_code response \<and> status_code response < 600
             \<longrightarrow> snd (translate_text env text target_language)
                   = Inr (failure_prefix @ exc_str env (HTTPError (status_code response))))
        \<and> (\<forall>response e. post (translate_request env key text target_language) = Inr response
               \<and> \<not> (400 \<le> status_code response \<and> status_code response < 600)
               \<and> json_result response = Inl e
             \<longrightarrow> snd (translate_text env text target_language)
                   = Inr (failure_prefix @ exc_str env e))
        \<and> (\<forall>response result e.
               post (translate_request env key text target_language) = Inr response
               \<and> \<not> (400 \<le> status_code response \<and> status_code response < 600)
               \<and> json_result response = Inr result \<and> read_result result = Inl e
             \<longrightarrow> snd (translate_text env text target_language)
                   = Inr (failure_prefix @ exc_str env e)))"
proof (intro conjI allI impI)
  show "\<exists>s. snd (translate_text env text target_language) = Inr s"
    by (rule translate_text_returns)
next
  assume "translator_client env = None \<or> translator_key env = None \<or> translator_key env = Some []"
  then show "snd (translate_text env text target_language) = Inr not_configured"
    by (simp add: translate_text_not_configured)
next
  fix post key e
  assume c: "translator_client env = Some post \<and> translator_key env = Some key \<and> key \<noteq> []"
    and p: "post (translate_request env key text target_language) = Inl e"
  from c have u: "translator_client env = Some post" "translator_key env = Some key" "key \<noteq> []"
    by simp_all
  show "snd (translate_text env text target_language) = Inr (failure_prefix @ exc_str env e)"
    using translate_text_unfold [OF u, of "text" target_language] p by simp
next
  fix post key response
  assume c: "translator_client env = Some post \<and> translator_key env = Some key \<and> key \<noteq> []"
    and p: "post (translate_request env key text target_language) = Inr response
            \<and> 400 \<le> status_code response \<and> status_code response < 600"
  from c have u: "translator_client env = Some post" "translator_key env = Some key" "key \<noteq> []"
    by simp_all
  from p have "raise_for_status response = Inl (HTTPError (status_code response))"
    by (simp add: raise_for_status_def)
  then show "snd (translate_text env text target_language)
               = Inr (failure_prefix @ exc_str env (HTTPError (status_code response)))"
    using translate_text_unfold [OF u, of "text" target_language] p by simp
next
  fix post key response e
  assume c: "translator_client env = Some post \<and> translator_key env = Some key \<and> key \<noteq> []"
    and p: "post (translate_request env key text target_language) = Inr response
            \<and> \<not> (400 \<le> status_code response \<and> status_code response < 600)
            \<and> json_result response = Inl e"
  from c have u: "translator_client env = Some post" "translator_key env = Some key" "key \<noteq> []"
    by simp_all
  from p have "raise_for_status response = Inr ()"
    by (simp add: raise_for_status_def)
  then show "snd (translate_text env text target_language) = Inr (failure_prefix @ exc_str env e)"
    using translate_text_unfold [OF u, of "text" target_language] p by simp
next
  fix post key response result e
  assume c: "translator_client env = Some post \<and> translator_key env = Some key \<and> key \<noteq> []"
    and p: "post (translate_request env key text target_language) = Inr response
            \<and> \<not> (400 \<le> status_code response \<and> status_code response < 600)
            \<and> json_result response = Inr result \<and> read_result result = Inl e"
  from c have u: "translator_client env = Some post" "translator_key env = Some key" "key \<noteq> []"
    by simp_all
  from p have "raise_for_status response = Inr ()"
    by (simp add: raise_for_status_def)
  then show "snd (translate_text env text target_language) = Inr (failure_prefix @ exc_str env e)"
    using translate_text_unfold [OF u, of "text" target_language] p by simp
qed

theorem translate_text_never_raises_witness:
  "snd (translate_text (example_env (post_answers 500 (Inr (example_body (ascii ''X'')))))
          (ascii ''Hello'') (ascii ''si''))
     = Inr (ascii ''Sorry, translation failed: HTTPError'')
   \<and> snd (translate_text (example_env (post_fails (LibraryError (ascii ''timed out''))))
          (ascii ''Hello'') (ascii ''si''))
     = Inr (ascii ''Sorry, translation failed: timed out'')
   \<and> snd (translate_text (example_env (post_answers 200 (Inr (JObj []))))
          (ascii ''Hello'') (ascii ''si''))
     = Inr (ascii ''Sorry, translation failed: KeyError'')
   \<and> snd (translate_text
            ((example_env (post_fails IndexError)) \<lparr> translator_key := None \<rparr>)
            (ascii ''Hello'') (ascii ''si''))
     = Inr (ascii ''Translation service not configured'')"
  using translate_text_never_raises [of
          "example_env (post_answers 500 (Inr (example_body (ascii ''X''))))"
          "ascii ''Hello''" "ascii ''si''"]
        translate_text_never_raises [of
          "example_env (post_fails (LibraryError (ascii ''timed out'')))"
          "ascii ''Hello''" "ascii ''si''"]
        translate_text_never_raises [of
          "example_env (post_answers 200 (Inr (JObj [])))"
          "ascii ''Hello''" "ascii ''si''"]
        translate_text_never_raises [of
          "(example_env (post_fails IndexError)) \<lparr> translator_key := None \<rparr>"
          "ascii ''Hello''" "ascii ''si''"]
  by (simp add: example_env_def post_answers_def post_fails_def failure_prefix_def
        not_configured_def read_result_def and_then_def ascii_def)

text \<open>
  Claim C4 as first stated fails at a status that is neither 2xx nor in 400..599: a
  response with status 304 and a well-formed body passes \<^verbatim>\<open>raise_for_status\<close>, and
  \<^verbatim>\<open>translate_text\<close> returns the formatted translation, not a failure text.
\<close>

theorem translate_text_status_304_counterexample:
  "\<not> (200 \<le> status_code \<lparr> status_code = 304, json_result = Inr (example_body (ascii ''X'')) \<rparr>
       \<and> status_code \<lparr> status_code = 304, json_result = Inr (example_body (ascii ''X'')) \<rparr> < 300)
   \<and> post_answers 304 (Inr (example_body (ascii ''X'')))
        (translate_request (example_env (post_answers 304 (Inr (example_body (ascii ''X'')))))
           (ascii ''key'') (ascii ''Hello'') (ascii ''si''))
      = Inr \<lparr> status_code = 304, json_result = Inr (example_body (ascii ''X'')) \<rparr>
   \<and> snd (translate_text (example_env (post_answers 304 (Inr (example_body (ascii ''X'')))))
          (ascii ''Hello'') (ascii ''si''))
      = Inr (translated_reply (ascii ''en'') (ascii ''si'') (ascii ''X''))
   \<and> \<not> prefix failure_prefix (translated_reply (ascii ''en'') (ascii ''si'') (ascii ''X''))"
  by (simp add: example_env_def post_answers_def translate_text_def bind_emit bind_lift_Inr
        bind_ret try_except_def raise_for_status_def read_result_example interpolate_def
        translated_reply_def failure_prefix_def ret_def ascii_def)

section \<open>The HTTP endpoint: properties\<close>

lemma messages_no_header:
  assumes "request_headers req (ascii ''Content-Type'') = None"
  shows "messages env srv req = ([], Inl (KeyError (KStr (ascii ''Content-Type''))))"
  using assms by (simp add: messages_def raise_def)

lemma messages_rejected:
  assumes "request_headers req (ascii ''Content-Type'') = Some content_type"
    and "\<not> py_in (ascii ''application/json'') content_type"
  shows "messages env srv req = ([], Inr (jsonify_error (ascii ''Invalid content type''), 415))"
  using assms by (simp add: messages_def ret_def)

lemma messages_accepted_first_event:
  assumes "request_headers req (ascii ''Content-Type'') = Some content_type"
    and "py_in (ascii ''application/json'') content_type"
  shows "\<exists>es. fst (messages env srv req) = Request_json # es"
  using assms by (simp add: messages_def bind_emit)

lemma bind_pair_Inl: "bind (es, Inl e) f = (es, Inl e)"
  by (simp add: bind_def)

lemma bind_pair_Inr: "bind (es, Inr x) f = (es @ fst (f x), snd (f x))"
  by (simp add: bind_def split: prod.splits)

lemma messages_processed:
  assumes "request_headers req (ascii ''Content-Type'') = Some content_type"
    and "py_in (ascii ''application/json'') content_type"
    and "request_json req = Inr body"
    and "deserialize srv body = Inr activity"
    and "auth_header = (case request_headers req (ascii ''Authorization'') of
                          Some h \<Rightarrow> h | None \<Rightarrow> [])"
  shows "messages env srv req =
     (case process_activity srv activity auth_header (aux_func env) of
        (es, Inl e) \<Rightarrow>
          (Request_json # Deserialize body # Process_activity activity auth_header # es @
           [Log_error (ascii ''Error processing activity: '' @ exc_str env e)],
           Inr (jsonify_error (exc_str env e), 500))
      | (es, Inr (Some r)) \<Rightarrow>
          (Request_json # Deserialize body # Process_activity activity auth_header # es,
           Inr (Json (response_body r), response_status r))
      | (es, Inr None) \<Rightarrow>
          (Request_json # Deserialize body # Process_activity activity auth_header # es,
           Inr (Plain [], 200)))"
proof -
  obtain es r where pa: "process_activity srv activity auth_header (aux_func env) = (es, r)"
    by (cases "process_activity srv activity auth_header (aux_func env)")
  have m: "messages env srv req =
     (Request_json # Deserialize body #
        fst (try_except
          (bind (emit (Process_activity activity auth_header)) (\<lambda>_.
           bind (es, r) (\<lambda>response.
             case response of
               Some r \<Rightarrow> ret (Json (response_body r), response_status r)
             | None \<Rightarrow> ret (Plain [], 200))))
          (\<lambda>e. bind (emit (Log_error (ascii ''Error processing activity: '' @ exc_str env e)))
                 (\<lambda>_. ret (jsonify_error (exc_str env e), 500)))),
      snd (try_except
          (bind (emit (Process_activity activity auth_header)) (\<lambda>_.
           bind (es, r) (\<lambda>response.
             case response of
               Some r \<Rightarrow> ret (Json (response_body r), response_status r)
             | None \<Rightarrow> ret (Plain [], 200))))
          (\<lambda>e. bind (emit (Log_error (ascii ''Error processing activity: '' @ exc_str env e)))
                 (\<lambda>_. ret (jsonify_error (exc_str env e), 500)))))"
    using assms(1-4) pa [unfolded assms(5)]
    by (simp add: messages_def bind_emit bind_lift_Inr Let_def assms(5))
  show ?thesis
  proof (cases r)
    case (Inl e)
    then show ?thesis
      by (simp add: m pa bind_emit bind_pair_Inl try_except_Inl ret_def)
  next
    case (Inr response)
    then show ?thesis
      by (cases response)
         (simp_all add: m pa bind_emit bind_pair_Inr try_except_Inr ret_def)
  qed
qed

lemma pipeline_adapter_run:
  assumes "authenticate activity auth_header = None"
  shows "pipeline_adapter authenticate answer activity auth_header callback =
           (fst (callback activity),
            case snd (callback activity) of Inl e \<Rightarrow> Inl e | Inr _ \<Rightarrow> Inr (answer activity))"
  using assms
  by (cases "callback activity")
     (simp add: pipeline_adapter_def bind_def ret_def split: sum.splits)

lemma example_request_headers:
  "request_headers (example_request content_type body) (ascii ''Content-Type'') = content_type"
  "request_headers (example_request content_type body) (ascii ''Authorization'') = None"
  "request_json (example_request content_type body) = Inr body"
  by (simp_all add: example_request_def ascii_def)

lemma example_server_fields:
  "deserialize (example_server a) body = Inr a"
  "process_activity (example_server a) = pipeline_adapter (\<lambda>_ _. None) (\<lambda>_. None)"
  by (simp_all add: example_server_def)

lemma example_messages:
  assumes "py_in (ascii ''application/json'') content_type"
  shows "messages env (example_server a) (example_request (Some content_type) body) =
     (case on_message_activity env a of
        (es, Inl e) \<Rightarrow>
          (Request_json # Deserialize body # Process_activity a [] # es @
           [Log_error (ascii ''Error processing activity: '' @ exc_str env e)],
           Inr (jsonify_error (exc_str env e), 500))
      | (es, Inr _) \<Rightarrow>
          (Request_json # Deserialize body # Process_activity a [] # es, Inr (Plain [], 200)))"
proof -
  have "messages env (example_server a) (example_request (Some content_type) body) =
     (case pipeline_adapter (\<lambda>_ _. None) (\<lambda>_. None) a [] (aux_func env) of
        (es, Inl e) \<Rightarrow>
          (Request_json # Deserialize body # Process_activity a [] # es @
           [Log_error (ascii ''Error processing activity: '' @ exc_str env e)],
           Inr (jsonify_error (exc_str env e), 500))
      | (es, Inr (Some r)) \<Rightarrow>
          (Request_json # Deserialize body # Process_activity a [] # es,
           Inr (Json (response_body r), response_status r))
      | (es, Inr None) \<Rightarrow>
          (Request_json # Deserialize body # Process_activity a [] # es,
           Inr (Plain [], 200)))"
    using messages_processed [of "example_request (Some content_type) body" content_type body
            "example_server a" a "[]" env] assms
    by (simp add: example_request_headers example_server_fields)
  then show ?thesis
    by (cases "on_message_activity env a")
       (simp add: pipeline_adapter_run aux_func_def split: sum.splits)
qed

lemma example_help_message:
  "on_message_activity (example_env post) (message_activity (Some (ascii ''help'')))
     = ([Send (Message help_text)], Inr ())"
  by (simp add: message_activity_def ascii_def isspace_def send_def example_env_def
        strip_def ascii_lower_def on_message_activity_def help_keywords_def)

lemma on_message_activity_no_text:
  "activity_text a = None \<Longrightarrow> on_message_activity env a = ([], Inl AttributeError)"
  by (simp add: on_message_activity_def raise_def)

text \<open>
  Claim C10. The content-type gate is a substring test. Without a
  \<^verbatim>\<open>Content-Type\<close> header the lookup raises before anything else happens. With the
  header, the request gets the 415 answer of the \<^verbatim>\<open>else\<close> branch (and no event)
  exactly when the value lacks the substring \<^verbatim>\<open>application/json\<close>, and it is read as
  JSON (the first event is the read of \<^verbatim>\<open>request.json\<close>) exactly when the value has the
  substring, wherever it stands: \<^verbatim>\<open>application/json; charset=utf-8\<close> is accepted.
\<close>

theorem content_type_gate:
  "(request_headers req (ascii ''Content-Type'') = None \<longrightarrow>
      messages env srv req = ([], Inl (KeyError (KStr (ascii ''Content-Type'')))))
   \<and> (\<forall>content_type. request_headers req (ascii ''Content-Type'') = Some content_type \<longrightarrow>
        ((messages env srv req = ([], Inr (jsonify_error (ascii ''Invalid content type''), 415)))
           \<longleftrightarrow> \<not> py_in (ascii ''application/json'') content_type)
      \<and> ((\<exists>es. fst (messages env srv req) = Request_json # es)
           \<longleftrightarrow> py_in (ascii ''application/json'') content_type))
   \<and> py_in (ascii ''application/json'') (ascii ''application/json; charset=utf-8'')"
proof (intro conjI allI impI)
  assume "request_headers req (ascii ''Content-Type'') = None"
  then show "messages env srv req = ([], Inl (KeyError (KStr (ascii ''Content-Type''))))"
    by (rule messages_no_header)
next
  fix content_type
  assume h: "request_headers req (ascii ''Content-Type'') = Some content_type"
  show "(messages env srv req = ([], Inr (jsonify_error (ascii ''Invalid content type''), 415)))
          \<longleftrightarrow> \<not> py_in (ascii ''application/json'') content_type"
  proof (cases "py_in (ascii ''application/json'') content_type")
    case True
    then obtain es where "fst (messages env srv req) = Request_json # es"
      using messages_accepted_first_event [OF h] by blast
    then have "fst (messages env srv req) \<noteq> []" by simp
    then show ?thesis using True by auto
  next
    case False
    then show ?thesis using messages_rejected [OF h] by simp
  qed
next
  fix content_type
  assume h: "request_headers req (ascii ''Content-Type'') = Some content_type"
  show "(\<exists>es. fst (messages env srv req) = Request_json # es)
          \<longleftrightarrow> py_in (ascii ''application/json'') content_type"
  proof (cases "py_in (ascii ''application/json'') content_type")
    case True
    then show ?thesis using messages_accepted_first_event [OF h] by blast
  next
    case False
    then show ?thesis using messages_rejected [OF h False] by simp
  qed
next
  show "py_in (ascii ''application/json'') (ascii ''application/json; charset=utf-8'')"
    by (simp add: py_in_def ascii_def sublist_code)
qed

theorem content_type_gate_witness:
  "messages (example_env (post_fails IndexError)) (example_server (message_activity (Some [])))
     (example_request None (message_body [])) = ([], Inl (KeyError (KStr (ascii ''Content-Type''))))
   \<and> messages (example_env (post_fails IndexError)) (example_server (message_activity (Some [])))
     (example_request (Some (ascii ''text/plain'')) (message_body []))
     = ([], Inr (jsonify_error (ascii ''Invalid content type''), 415))
   \<and> (\<exists>es. fst (messages (example_env (post_fails IndexError))
                   (example_server (message_activity (Some [])))
                   (example_request (Some (ascii ''application/json; charset=utf-8''))
                      (message_body [])))
            = Request_json # es)"
  using content_type_gate [of "example_request None (message_body [])"
          "example_env (post_fails IndexError)" "example_server (message_activity (Some []))"]
        content_type_gate [of "example_request (Some (ascii ''text/plain'')) (message_body [])"
          "example_env (post_fails IndexError)" "example_server (message_activity (Some []))"]
        content_type_gate [of
          "example_request (Some (ascii ''application/json; charset=utf-8'')) (message_body [])"
          "example_env (post_fails IndexError)" "example_server (message_activity (Some []))"]
  by (simp add: example_request_def py_in_def ascii_def sublist_code)

text \<open>
  Claim C7, as amended. A request whose \<^verbatim>\<open>Content-Type\<close> header is present and does not
  contain the substring \<^verbatim>\<open>application/json\<close> (\<^verbatim>\<open>text/plain\<close>, say) is answered
  with status 415 and the JSON body \<^verbatim>\<open>{"error": "Invalid content type"}\<close>, and nothing
  else happens: the body is not read or deserialized and the adapter is not called.
\<close>

theorem content_type_rejected:
  assumes "request_headers req (ascii ''Content-Type'') = Some content_type"
    and "\<not> py_in (ascii ''application/json'') content_type"
  shows "messages env srv req = ([], Inr (jsonify_error (ascii ''Invalid content type''), 415))
   \<and> Request_json \<notin> set (fst (messages env srv req))
   \<and> (\<forall>b. Deserialize b \<notin> set (fst (messages env srv req)))
   \<and> (\<forall>a h. Process_activity a h \<notin> set (fst (messages env srv req)))"
  using messages_rejected [OF assms] by simp

theorem content_type_rejected_witness:
  "messages (example_env (post_fails IndexError)) (example_server (message_activity (Some [])))
     (example_request (Some (ascii ''text/plain'')) (message_body []))
   = ([], Inr (Json (JObj [(ascii ''error'', JStr (ascii ''Invalid content type''))]), 415))"
  using content_type_rejected [of
          "example_request (Some (ascii ''text/plain'')) (message_body [])"
          "ascii ''text/plain''"
          "example_env (post_fails IndexError)" "example_server (message_activity (Some []))"]
  by (simp add: example_request_def py_in_def ascii_def sublist_code jsonify_error_def)

text \<open>
  Claim C7 as first stated fails at a header value that is not \<^verbatim>\<open>application/json\<close>
  but contains it: \<^verbatim>\<open>application/json-patch+json\<close> passes the gate, the body is
  deserialized, the handler runs and the answer is 200.
\<close>

theorem content_type_json_patch_counterexample:
  "ascii ''application/json-patch+json'' \<noteq> ascii ''application/json''
   \<and> messages (example_env (post_fails IndexError))
       (example_server (message_activity (Some (ascii ''help''))))
       (example_request (Some (ascii ''application/json-patch+json''))
          (message_body (ascii ''help'')))
     = ([Request_json, Deserialize (message_body (ascii ''help'')),
         Process_activity (message_activity (Some (ascii ''help''))) [],
         Send (Message help_text)],
        Inr (Plain [], 200))"
proof -
  have "py_in (ascii ''application/json'') (ascii ''application/json-patch+json'')"
    by (simp add: py_in_def ascii_def sublist_code)
  then show ?thesis
    by (simp add: example_messages example_help_message) (simp add: ascii_def)
qed

text \<open>
  Claim C8. For a request that passes the content-type check and whose body
  deserializes to an activity: when \<^verbatim>\<open>adapter.process_activity\<close> (the handler included)
  raises \<open>e\<close>, the endpoint does not raise and answers 500 with the JSON body
  \<^verbatim>\<open>{"error": str(e)}\<close>; when it returns a response, the endpoint answers with that
  response's body and status; when it returns none, the endpoint answers with an empty
  body and status 200.
\<close>

theorem messages_outcome:
  assumes "request_headers req (ascii ''Content-Type'') = Some content_type"
    and "py_in (ascii ''application/json'') content_type"
    and "request_json req = Inr body"
    and "deserialize srv body = Inr activity"
  shows "snd (messages env srv req) =
     Inr (case snd (process_activity srv activity
                      (case request_headers req (ascii ''Authorization'') of
                         Some h \<Rightarrow> h | None \<Rightarrow> [])
                      (aux_func env)) of
            Inl e \<Rightarrow> (jsonify_error (exc_str env e), 500)
          | Inr (Some r) \<Rightarrow> (Json (response_body r), response_status r)
          | Inr None \<Rightarrow> (Plain [], 200))"
  using messages_processed [OF assms refl]
  by (simp split: prod.splits sum.splits option.splits)

theorem messages_outcome_witness:
  "snd (messages (example_env (post_fails IndexError))
          \<lparr> deserialize = (\<lambda>_. Inr (message_activity (Some (ascii ''help'')))),
            process_activity = (\<lambda>a h callback. ([], Inl (LibraryError (ascii ''Unauthorized'')))) \<rparr>
          (example_request (Some (ascii ''application/json'')) (message_body (ascii ''help''))))
     = Inr (Json (JObj [(ascii ''error'', JStr (ascii ''Unauthorized''))]), 500)
   \<and> snd (messages (example_env (post_fails IndexError))
          \<lparr> deserialize = (\<lambda>_. Inr (message_activity (Some (ascii ''help'')))),
            process_activity = (\<lambda>a h callback.
              ([], Inr (Some \<lparr> response_body = JStr (ascii ''ok''), response_status = 201 \<rparr>))) \<rparr>
          (example_request (Some (ascii ''application/json'')) (message_body (ascii ''help''))))
     = Inr (Json (JStr (ascii ''ok'')), 201)
   \<and> snd (messages (example_env (post_fails IndexError))
          \<lparr> deserialize = (\<lambda>_. Inr (message_activity (Some (ascii ''help'')))),
            process_activity = (\<lambda>a h callback. ([], Inr None)) \<rparr>
          (example_request (Some (ascii ''application/json'')) (message_body (ascii ''help''))))
     = Inr (Plain [], 200)"
  using messages_outcome [of
          "example_request (Some (ascii ''application/json'')) (message_body (ascii ''help''))"
          "ascii ''application/json''" "message_body (ascii ''help'')"
          "\<lparr> deserialize = (\<lambda>_. Inr (message_activity (Some (ascii ''help'')))),
            process_activity = (\<lambda>a h callback. ([], Inl (LibraryError (ascii ''Unauthorized'')))) \<rparr>"
          "message_activity (Some (ascii ''help''))" "example_env (post_fails IndexError)"]
        messages_outcome [of
          "example_request (Some (ascii ''application/json'')) (message_body (ascii ''help''))"
          "ascii ''application/json''" "message_body (ascii ''help'')"
          "\<lparr> deserialize = (\<lambda>_. Inr (message_activity (Some (ascii ''help'')))),
            process_activity = (\<lambda>a h callback.
              ([], Inr (Some \<lparr> response_body = JStr (ascii ''ok''), response_status = 201 \<rparr>))) \<rparr>"
          "message_activity (Some (ascii ''help''))" "example_env (post_fails IndexError)"]
        messages_outcome [of
          "example_request (Some (ascii ''application/json'')) (message_body (ascii ''help''))"
          "ascii ''application/json''" "message_body (ascii ''help'')"
          "\<lparr> deserialize = (\<lambda>_. Inr (message_activity (Some (ascii ''help'')))),
            process_activity = (\<lambda>a h callback. ([], Inr None)) \<rparr>"
          "message_activity (Some (ascii ''help''))" "example_env (post_fails IndexError)"]
  by (simp add: example_request_headers py_in_def jsonify_error_def example_env_def)

text \<open>
  Claim C9. On an activity without text, \<^verbatim>\<open>on_message_activity\<close> raises
  \<^verbatim>\<open>AttributeError\<close> at \<^verbatim>\<open>.strip()\<close> before anything is sent. At the endpoint, with an
  adapter that runs the callback and lets its exception through, such a request is
  answered 500 with the error's text and no activity is sent: the prompt reply does not
  happen.
\<close>

theorem missing_text_raises:
  assumes "activity_text turn_context = None"
  shows "on_message_activity env turn_context = ([], Inl AttributeError)
   \<and> on_message_activity env turn_context \<noteq> send env (Message prompt_text)
   \<and> (\<forall>srv req content_type body authenticate answer.
         request_headers req (ascii ''Content-Type'') = Some content_type
         \<and> py_in (ascii ''application/json'') content_type
         \<and> request_json req = Inr body
         \<and> deserialize srv body = Inr turn_context
         \<and> process_activity srv = pipeline_adapter authenticate answer
         \<and> authenticate turn_context
              (case request_headers req (ascii ''Authorization'') of
                 Some h \<Rightarrow> h | None \<Rightarrow> []) = None
       \<longrightarrow> snd (messages env srv req) = Inr (jsonify_error (exc_str env AttributeError), 500)
         \<and> (\<forall>act. Send act \<notin> set (fst (messages env srv req))))"
proof (intro conjI allI impI)
  show h: "on_message_activity env turn_context = ([], Inl AttributeError)"
    using assms by (rule on_message_activity_no_text)
  show "on_message_activity env turn_context \<noteq> send env (Message prompt_text)"
    by (simp add: h send_def)
next
  fix srv :: server and req :: request and content_type body
    and authenticate :: "activity \<Rightarrow> pystr \<Rightarrow> exc option"
    and answer :: "activity \<Rightarrow> invoke_response option"
  assume a: "request_headers req (ascii ''Content-Type'') = Some content_type
         \<and> py_in (ascii ''application/json'') content_type
         \<and> request_json req = Inr body
         \<and> deserialize srv body = Inr turn_context
         \<and> process_activity srv = pipeline_adapter authenticate answer
         \<and> authenticate turn_context
              (case request_headers req (ascii ''Authorization'') of
                 Some h \<Rightarrow> h | None \<Rightarrow> []) = None"
  have h: "on_message_activity env turn_context = ([], Inl AttributeError)"
    using assms by (rule on_message_activity_no_text)
  from a have p: "process_activity srv turn_context
              (case request_headers req (ascii ''Authorization'') of
                 Some h \<Rightarrow> h | None \<Rightarrow> []) (aux_func env) = ([], Inl AttributeError)"
    by (simp add: pipeline_adapter_run aux_func_def h)
  from a have m: "messages env srv req =
      (case process_activity srv turn_context
              (case request_headers req (ascii ''Authorization'') of
                 Some h \<Rightarrow> h | None \<Rightarrow> []) (aux_func env) of
        (es, Inl e) \<Rightarrow>
          (Request_json # Deserialize body # Process_activity turn_context
              (case request_headers req (ascii ''Authorization'') of
                 Some h \<Rightarrow> h | None \<Rightarrow> []) # es @
           [Log_error (ascii ''Error processing activity: '' @ exc_str env e)],
           Inr (jsonify_error (exc_str env e), 500))
      | (es, Inr (Some r)) \<Rightarrow>
          (Request_json # Deserialize body # Process_activity turn_context
              (case request_headers req (ascii ''Authorization'') of
                 Some h \<Rightarrow> h | None \<Rightarrow> []) # es,
           Inr (Json (response_body r), response_status r))
      | (es, Inr None) \<Rightarrow>
          (Request_json # Deserialize body # Process_activity turn_context
              (case request_headers req (ascii ''Authorization'') of
                 Some h \<Rightarrow> h | None \<Rightarrow> []) # es,
           Inr (Plain [], 200)))"
    using messages_processed [of req content_type body srv turn_context _ env] by simp
  show "snd (messages env srv req) = Inr (jsonify_error (exc_str env AttributeError), 500)"
    by (simp add: m p)
  show "\<And>act. Send act \<notin> set (fst (messages env srv req))"
    by (simp add: m p)
qed

theorem missing_text_raises_witness:
  "on_message_activity (example_env (post_fails IndexError)) (message_activity None)
     = ([], Inl AttributeError)
   \<and> messages (example_env (post_fails IndexError)) (example_server (message_activity None))
       (example_request (Some (ascii ''application/json''))
          (JObj [(ascii ''type'', JStr (ascii ''message''))]))
     = ([Request_json, Deserialize (JObj [(ascii ''type'', JStr (ascii ''message''))]),
         Process_activity (message_activity None) [],
         Log_error (ascii ''Error processing activity: AttributeError'')],
        Inr (Json (JObj [(ascii ''error'', JStr (ascii ''AttributeError''))]), 500))"
proof -
  have j: "py_in (ascii ''application/json'') (ascii ''application/json'')"
    by (simp add: py_in_def)
  have t: "activity_text (message_activity None) = None"
    by (simp add: message_activity_def)
  show ?thesis
    using missing_text_raises [OF t, of "example_env (post_fails IndexError)"]
    by (simp add: example_messages [OF j] jsonify_error_def example_env_def)
       (simp add: ascii_def)
qed

section \<open>Members added\<close>

text \<open>
  What \<^verbatim>\<open>on_members_added_activity\<close> does when it is called: with a recipient on the
  activity and sends that succeed, one welcome message for each added member whose id
  differs from the recipient's, and nothing else.
\<close>

lemma on_members_added_activity_welcomes:
  assumes "recipient turn_context = Some bot_acc"
    and "send_activity env (Message welcome_text) = None"
  shows "on_members_added_activity env members turn_context =
           (replicate (length (filter (\<lambda>m. account_id m \<noteq> account_id bot_acc) members))
              (Send (Message welcome_text)),
            Inr ())"
  using assms
  by (induction members) (simp_all add: ret_def bind_send)

text \<open>
  Claim C1 is not met by the endpoint. The callback that \<^verbatim>\<open>messages\<close> hands to the
  adapter calls \<^verbatim>\<open>on_message_activity\<close> for every activity, so
  \<^verbatim>\<open>on_members_added_activity\<close> is never reached. A members-added activity (one new
  member, no text) delivered through the endpoint sends no welcome message and is
  answered 500, while \<^verbatim>\<open>on_members_added_activity\<close> on the same activity would have
  sent exactly one welcome message.
\<close>

theorem members_added_not_welcomed:
  "messages (example_env (post_fails IndexError)) (example_server members_added_activity)
     (example_request (Some (ascii ''application/json'')) members_added_body)
   = ([Request_json, Deserialize members_added_body,
       Process_activity members_added_activity [],
       Log_error (ascii ''Error processing activity: AttributeError'')],
      Inr (Json (JObj [(ascii ''error'', JStr (ascii ''AttributeError''))]), 500))
   \<and> on_members_added_activity (example_env (post_fails IndexError))
       (members_added members_added_activity) members_added_activity
     = ([Send (Message welcome_text)], Inr ())"
proof -
  have j: "py_in (ascii ''application/json'') (ascii ''application/json'')"
    by (simp add: py_in_def)
  have t: "activity_text members_added_activity = None"
    by (simp add: members_added_activity_def)
  have m: "messages (example_env (post_fails IndexError)) (example_server members_added_activity)
     (example_request (Some (ascii ''application/json'')) members_added_body)
   = ([Request_json, Deserialize members_added_body,
       Process_activity members_added_activity [],
       Log_error (ascii ''Error processing activity: AttributeError'')],
      Inr (Json (JObj [(ascii ''error'', JStr (ascii ''AttributeError''))]), 500))"
    by (simp add: example_messages [OF j] on_message_activity_no_text [OF t] jsonify_error_def
          example_env_def)
       (simp add: ascii_def)
  have w: "on_members_added_activity (example_env (post_fails IndexError))
       (members_added members_added_activity) members_added_activity
     = ([Send (Message welcome_text)], Inr ())"
    by (simp add: members_added_activity_def bot_account_def example_env_def bind_send ret_def
          ascii_def)
  show ?thesis using m w by simp
qed

end
